theory Spec2Isabelle
  imports Main
begin

section \<open>Outcomes of Go calls\<close>

text \<open>
  A Go call either returns or panics. Neither the repository package nor the service
  package recovers, so a panic raised in a callee is the outcome of the caller as well.
\<close>

datatype 'a outcome = Returns 'a | Panics string

text \<open>
  A Go \<^verbatim>\<open>error\<close> value. \<open>Error msg\<close> is an error created with a fixed message (by
  \<^verbatim>\<open>fmt.Errorf\<close> without a verb, or by the database driver); \<open>Wrapped prefix e\<close> is
  \<^verbatim>\<open>fmt.Errorf(prefix + "%w", e)\<close>. A nil error is \<open>None\<close> of \<open>error option\<close>.
\<close>

datatype error = Error string | Wrapped string error

section \<open>Run-time type descriptors (package reflect)\<close>

datatype Kind =
    reflect_Invalid | reflect_Bool
  | reflect_Int | reflect_Int8 | reflect_Int16 | reflect_Int32 | reflect_Int64
  | reflect_Uint | reflect_Uint8 | reflect_Uint16 | reflect_Uint32 | reflect_Uint64
  | reflect_Uintptr | reflect_Float32 | reflect_Float64
  | reflect_Complex64 | reflect_Complex128
  | reflect_Array | reflect_Chan | reflect_Func | reflect_Interface | reflect_Map
  | reflect_Pointer | reflect_Slice | reflect_String | reflect_Struct
  | reflect_UnsafePointer

text \<open>
  What the migration reads of a \<^verbatim>\<open>reflect.Type\<close>: \<^verbatim>\<open>Name()\<close>, \<^verbatim>\<open>String()\<close>,
  \<^verbatim>\<open>Kind()\<close> and, for a struct, the fields in declaration order (\<^verbatim>\<open>NumField\<close>,
  \<^verbatim>\<open>Field(i)\<close>), each with its name, its type and its raw tag.
\<close>

datatype rtype =
  Type (Type_Name: string) (Type_String: string) (Type_Kind: Kind)
       (Type_Fields: "StructField list")
and StructField =
  StructField (Field_Name: string) (Field_Type: rtype) (Field_Tag: string)

text \<open>
  A value of type \<^verbatim>\<open>any\<close>, as far as \<^verbatim>\<open>reflect.TypeOf\<close> sees it: the nil interface
  (\<open>None\<close>) or a value with a dynamic type. \<^verbatim>\<open>reflect.TypeOf(nil)\<close> is the nil
  \<^verbatim>\<open>reflect.Type\<close>.
\<close>

type_synonym any = "rtype option"

definition TypeOf :: "any \<Rightarrow> rtype option" where
  "TypeOf model = model"

subsection \<open>Struct tags\<close>

text \<open>
  Two functions of the Go library are called whose full behaviour (escape sequences and
  UTF-8 validation in \<^verbatim>\<open>strconv.Unquote\<close>, the Unicode case mapping in
  \<^verbatim>\<open>strings.ToLower\<close>) is not defined in this theory. They are parameters of the
  model: a \<open>Go_library\<close> says what the two functions return. The definitions \<open>Unquote\<close>
  and \<open>ToLower\<close> below decide by themselves the arguments that need none of that
  behaviour, and ask the library for every other argument. What is proved for every
  \<open>Go_library\<close> holds for the library as it is.
\<close>

record Go_library =
  strconv_Unquote :: "string \<Rightarrow> string option"
  strings_ToLower :: "string \<Rightarrow> string"

text \<open>
  A quoted value that \<^verbatim>\<open>strconv.Unquote\<close> returns as it stands, without its quotes:
  a double quote at each end and in between neither a quote, a backslash or a newline
  nor a byte beyond ASCII.
\<close>

definition plain_quoted :: "string \<Rightarrow> bool" where
  "plain_quoted s \<longleftrightarrow>
     2 \<le> length s \<and> hd s = CHR 0x22 \<and> last s = CHR 0x22 \<and>
     list_all (\<lambda>c. c \<noteq> CHR 0x22 \<and> c \<noteq> CHR 0x5C \<and> c \<noteq> CHR 0x0A \<and> (of_char c :: nat) < 128)
       (butlast (tl s))"

text \<open>
  \<^verbatim>\<open>strconv.Unquote\<close>; \<open>None\<close> is its syntax error.
\<close>

definition Unquote :: "Go_library \<Rightarrow> string \<Rightarrow> string option" where
  "Unquote L s = (if plain_quoted s then Some (butlast (tl s)) else strconv_Unquote L s)"

text \<open>
  The scan of \<^verbatim>\<open>StructTag.Lookup\<close> for the closing quote: the argument is the text
  after the opening quote and \<open>i\<close> the index reached; a backslash skips the next byte.
\<close>

fun scan_quoted :: "string \<Rightarrow> nat \<Rightarrow> nat" where
  "scan_quoted [] i = i"
| "scan_quoted (c # cs) i =
     (if c = CHR 0x22 then i
      else if c = CHR 0x5C then scan_quoted (drop 1 cs) (i + 2)
      else scan_quoted cs (i + 1))"

definition key_char :: "char \<Rightarrow> bool" where
  "key_char c \<longleftrightarrow>
     (of_char c :: nat) > 32 \<and> c \<noteq> CHR '':'' \<and> c \<noteq> CHR 0x22 \<and> c \<noteq> CHR 0x7F"

text \<open>
  \<^verbatim>\<open>StructTag.Lookup\<close>: the tag is a sequence of \<^verbatim>\<open>key:"value"\<close> pairs separated by
  spaces; the loop stops, with nothing found, at the first place that is not of this form.
\<close>

function Lookup :: "Go_library \<Rightarrow> string \<Rightarrow> string \<Rightarrow> string option" where
  "Lookup L tag key =
     (let tag1 = dropWhile (\<lambda>c. c = CHR '' '') tag in
      if tag1 = [] then None
      else
        let i = length (takeWhile key_char tag1) in
        if i = 0 \<or> i + 1 \<ge> length tag1 \<or> tag1 ! i \<noteq> CHR '':'' \<or> tag1 ! (i + 1) \<noteq> CHR 0x22
        then None
        else
          let name = take i tag1;
              tag2 = drop (i + 1) tag1;
              j = scan_quoted (drop 1 tag2) 1
          in
            if j \<ge> length tag2 then None
            else
              let qvalue = take (j + 1) tag2;
                  tag3 = drop (j + 1) tag2
              in if key = name then Unquote L qvalue else Lookup L tag3 key)"
  by pat_completeness auto
termination
proof (relation "measure (\<lambda>(L, tag, key). length tag)")
  show "wf (measure (\<lambda>(L, tag, key). length tag))"
    by simp
next
  fix L :: Go_library and tag key :: string and tag1 i name tag2 j qvalue tag3
  assume t1: "tag1 = dropWhile (\<lambda>c. c = CHR '' '') tag"
    and i: "i = length (takeWhile key_char tag1)"
    and ok: "\<not> (i = 0 \<or> length tag1 \<le> i + 1 \<or> tag1 ! i \<noteq> CHR '':'' \<or>
                tag1 ! (i + 1) \<noteq> CHR 0x22)"
    and t2: "tag2 = drop (i + 1) tag1"
    and t3: "tag3 = drop (j + 1) tag2"
  have "length tag1 \<le> length tag"
    unfolding t1 by (rule length_dropWhile_le)
  moreover have "Suc i < length tag1"
    using ok by simp
  moreover have "length tag3 = length tag1 - (i + 1) - (j + 1)"
    unfolding t3 t2 by simp
  ultimately have "length tag3 < length tag"
    by arith
  then show "((L, tag3, key), (L, tag, key)) \<in> measure (\<lambda>(L, tag, key). length tag)"
    by simp
qed

definition Get :: "Go_library \<Rightarrow> string \<Rightarrow> string \<Rightarrow> string" where
  "Get L tag key = (case Lookup L tag key of None \<Rightarrow> [] | Some v \<Rightarrow> v)"

subsection \<open>Packages strings and fmt\<close>

text \<open>
  \<^verbatim>\<open>strings.ToLower\<close>: in a string of ASCII bytes the letters A to Z go to a to z and
  every other byte is kept; a string with a byte beyond ASCII goes through the Unicode
  case mapping of the library.
\<close>

definition lower_byte :: "char \<Rightarrow> char" where
  "lower_byte c =
     (case map_of (zip ''ABCDEFGHIJKLMNOPQRSTUVWXYZ'' ''abcdefghijklmnopqrstuvwxyz'') c of
        None \<Rightarrow> c
      | Some l \<Rightarrow> l)"

definition ToLower :: "Go_library \<Rightarrow> string \<Rightarrow> string" where
  "ToLower L s =
     (if list_all (\<lambda>c. (of_char c :: nat) < 128) s then map lower_byte s
      else strings_ToLower L s)"

text \<open>
  \<^verbatim>\<open>strings.Split\<close> with a separator of one byte (the source splits at \<^verbatim>\<open>","\<close>):
  \<open>cur\<close> is the part being read. The result has one part more than there are
  separators, so it is never empty.
\<close>

fun Split_from :: "string \<Rightarrow> char \<Rightarrow> string \<Rightarrow> string list" where
  "Split_from [] sep cur = [cur]"
| "Split_from (c # cs) sep cur =
     (if c = sep then cur # Split_from cs sep [] else Split_from cs sep (cur @ [c]))"

definition Split :: "string \<Rightarrow> char \<Rightarrow> string list" where
  "Split s sep = Split_from s sep []"

fun Join :: "string list \<Rightarrow> string \<Rightarrow> string" where
  "Join [] sep = []"
| "Join [x] sep = x"
| "Join (x # y # ys) sep = x @ sep @ Join (y # ys) sep"

section \<open>The world outside the process\<close>

text \<open>
  The database behind a \<^verbatim>\<open>*sql.DB\<close> handle is outside the program. The model records
  every statement sent to it, oldest first, and takes the database's answers as given:
  \<open>db_exec\<close> and \<open>db_query\<close> say, from the statements sent so far and the statement
  arriving, what the database answers. The handle is taken to be live, as the
  constructors receive it from the connection functions. Standard output is the list of
  the lines printed, each the operands of one \<^verbatim>\<open>fmt.Println\<close>.
\<close>

datatype sql_arg = ArgString string | ArgInt int

datatype call = Exec_call string "sql_arg list" | Query_call string

text \<open>An \<^verbatim>\<open>sql.Result\<close>: what \<^verbatim>\<open>RowsAffected()\<close> returns, a count or an error.\<close>

datatype Result = Result (RowsAffected: "error + int")

text \<open>
  An \<^verbatim>\<open>*sql.Rows\<close> cursor: for each row that \<^verbatim>\<open>Next()\<close> delivers, what
  \<^verbatim>\<open>Scan(&u.ID, &u.Name)\<close> does with it (an error, or the two values decoded), and
  what \<^verbatim>\<open>Err()\<close> reports once \<^verbatim>\<open>Next()\<close> has returned false. The deferred
  \<^verbatim>\<open>Close()\<close> releases the cursor and changes nothing of what is returned; it is not
  recorded.
\<close>

datatype Rows = Rows (Rows_items: "(error + int \<times> string) list") (Rows_Err: "error option")

datatype print_arg = PStr string | PInt int

record world =
  db_calls :: "call list"
  db_exec :: "call list \<Rightarrow> string \<Rightarrow> sql_arg list \<Rightarrow> error + Result"
  db_query :: "call list \<Rightarrow> string \<Rightarrow> error + Rows"
  stdout :: "print_arg list list"

definition Exec :: "string \<Rightarrow> sql_arg list \<Rightarrow> world \<Rightarrow> (error + Result) \<times> world" where
  "Exec query args w =
     (db_exec w (db_calls w) query args,
      w\<lparr>db_calls := db_calls w @ [Exec_call query args]\<rparr>)"

definition Query :: "string \<Rightarrow> world \<Rightarrow> (error + Rows) \<times> world" where
  "Query query w =
     (db_query w (db_calls w) query, w\<lparr>db_calls := db_calls w @ [Query_call query]\<rparr>)"

definition Println :: "print_arg list \<Rightarrow> world \<Rightarrow> world" where
  "Println operands w = w\<lparr>stdout := stdout w @ [operands]\<rparr>"

section \<open>The entity (models/user.go)\<close>

record User =
  ID :: int
  Name :: string

definition int_type :: rtype where
  "int_type = Type ''int'' ''int'' reflect_Int []"

definition string_type :: rtype where
  "string_type = Type ''string'' ''string'' reflect_String []"

text \<open>
  The descriptor of \<^verbatim>\<open>models.User\<close>, with the two tags as the source writes them
  between backquotes: \<^verbatim>\<open>db:id, primary\<close> on \<^verbatim>\<open>ID\<close> and \<^verbatim>\<open>db:"name"\<close> on \<^verbatim>\<open>Name\<close>.
\<close>

definition User_type :: rtype where
  \<open>User_type =
     Type ''User'' ''models.User'' reflect_Struct
       [StructField ''ID'' int_type ''db:id, primary'',
        StructField ''Name'' string_type ''db:"name"'']\<close>

section \<open>The schema migration (package repository)\<close>

definition goTypeToPostgres :: "rtype \<Rightarrow> string outcome" where
  "goTypeToPostgres t =
     (if Type_Kind t = reflect_Int \<or> Type_Kind t = reflect_Int64 then Returns ''BIGSERIAL''
      else if Type_Kind t = reflect_String then Returns ''TEXT''
      else Panics (''unsupported type: '' @ Type_String t))"

text \<open>
  The loop of \<^verbatim>\<open>AutoMigrate\<close> over the fields that remain, with the column definitions
  collected so far. Indexing \<^verbatim>\<open>parts[0]\<close> panics on an empty slice; \<open>Split\<close> never
  returns one.
\<close>

fun AutoMigrate_columns ::
  "Go_library \<Rightarrow> StructField list \<Rightarrow> string list \<Rightarrow> string list outcome" where
  "AutoMigrate_columns L [] columns = Returns columns"
| "AutoMigrate_columns L (f # fs) columns =
     (let tag = Get L (Field_Tag f) ''db'' in
      if tag = [] then AutoMigrate_columns L fs columns
      else
        (case Split tag CHR '','' of
           [] \<Rightarrow> Panics ''runtime error: index out of range [0] with length 0''
         | col # rest \<Rightarrow>
             (case goTypeToPostgres (Field_Type f) of
                Panics msg \<Rightarrow> Panics msg
              | Returns sqlType \<Rightarrow>
                  let def = col @ '' '' @ sqlType;
                      def = (if rest \<noteq> [] \<and> hd rest = ''primary''
                             then def @ '' PRIMARY KEY'' else def)
                  in AutoMigrate_columns L fs (columns @ [def]))))"

text \<open>
  \<^verbatim>\<open>AutoMigrate\<close>. A method call on the nil \<^verbatim>\<open>reflect.Type\<close> that
  \<^verbatim>\<open>reflect.TypeOf(nil)\<close> returns is a nil dereference.
\<close>

definition AutoMigrate ::
  "Go_library \<Rightarrow> any \<Rightarrow> world \<Rightarrow> error option outcome \<times> world" where
  "AutoMigrate L model w =
     (case TypeOf model of
        None \<Rightarrow>
          (Panics ''runtime error: invalid memory address or nil pointer dereference'', w)
      | Some t \<Rightarrow>
          if Type_Kind t \<noteq> reflect_Struct
          then (Returns (Some (Error ''model must be a struct'')), w)
          else
            let table = ToLower L (Type_Name t) @ ''s'' in
            (case AutoMigrate_columns L (Type_Fields t) [] of
               Panics msg \<Rightarrow> (Panics msg, w)
             | Returns columns \<Rightarrow>
                 let query = ''CREATE TABLE IF NOT EXISTS '' @ table @ '' ('' @
                             Join columns '', '' @ '');'';
                     (r, w') = Exec query [] w
                 in (Returns (case r of Inl err \<Rightarrow> Some err | Inr res \<Rightarrow> None), w')))"

section \<open>The PostgreSQL repository (repository/postgres.go)\<close>

text \<open>
  A \<^verbatim>\<open>*PostgresRepo\<close> holds nothing but the database handle, and the database it
  points to is the \<open>world\<close> passed along; the handle itself carries no data.
\<close>

datatype PostgresRepo = PostgresRepo

definition NewPostgresRepo ::
  "Go_library \<Rightarrow> world \<Rightarrow> (PostgresRepo option \<times> error option) outcome \<times> world" where
  "NewPostgresRepo L w =
     (case AutoMigrate L (Some User_type) w of
        (Panics msg, w') \<Rightarrow> (Panics msg, w')
      | (Returns (Some err), w') \<Rightarrow> (Returns (None, Some err), w')
      | (Returns None, w') \<Rightarrow> (Returns (Some PostgresRepo, None), w'))"

definition PostgresRepo_Create :: "User \<Rightarrow> world \<Rightarrow> error option \<times> world" where
  "PostgresRepo_Create user w =
     (let (r, w1) = Exec ''INSERT INTO users (name) VALUES ($1)'' [ArgString (Name user)] w
      in case r of
           Inl err \<Rightarrow> (Some (Wrapped ''failed to insert user: '' err), w1)
         | Inr res \<Rightarrow>
             (case RowsAffected res of
                Inl err \<Rightarrow> (Some (Wrapped ''failed to get rows affected: '' err), w1)
              | Inr rows \<Rightarrow> (None, Println [PStr ''Inserted rows:'', PInt rows] w1)))"

text \<open>
  The loop of \<^verbatim>\<open>GetAll\<close> over the rows that remain, with the users read so far: a
  row that does not scan ends the call with the error and the nil slice.
\<close>

fun PostgresRepo_GetAll_rows ::
  "(error + int \<times> string) list \<Rightarrow> User list \<Rightarrow> error + User list" where
  "PostgresRepo_GetAll_rows [] users = Inr users"
| "PostgresRepo_GetAll_rows (row # rows) users =
     (case row of
        Inl err \<Rightarrow> Inl (Wrapped ''failed to scan user: '' err)
      | Inr (i, n) \<Rightarrow> PostgresRepo_GetAll_rows rows (users @ [\<lparr>ID = i, Name = n\<rparr>]))"

definition PostgresRepo_GetAll :: "world \<Rightarrow> (User list \<times> error option) \<times> world" where
  "PostgresRepo_GetAll w =
     (let (r, w1) = Query ''SELECT id, name FROM users'' w
      in case r of
           Inl err \<Rightarrow> (([], Some (Wrapped ''failed to query users: '' err)), w1)
         | Inr rows \<Rightarrow>
             (case PostgresRepo_GetAll_rows (Rows_items rows) [] of
                Inl err \<Rightarrow> (([], Some err), w1)
              | Inr users \<Rightarrow>
                  (case Rows_Err rows of
                     Some err \<Rightarrow> (([], Some (Wrapped ''error iterating rows: '' err)), w1)
                   | None \<Rightarrow> ((users, None), w1))))"

section \<open>The MySQL repository (repository/mysql.go)\<close>

datatype MySQLRepo = MySQLRepo

definition NewMySQLRepo :: "world \<Rightarrow> MySQLRepo \<times> world" where
  "NewMySQLRepo w = (MySQLRepo, w)"

definition MySQLRepo_Create :: "User \<Rightarrow> world \<Rightarrow> error option \<times> world" where
  "MySQLRepo_Create user w =
     (let (r, w1) = Exec ''INSERT INTO users (name) VALUES (?)'' [ArgString (Name user)] w
      in case r of
           Inl err \<Rightarrow> (Some (Wrapped ''failed to insert user: '' err), w1)
         | Inr res \<Rightarrow> (None, w1))"

fun MySQLRepo_GetAll_rows ::
  "(error + int \<times> string) list \<Rightarrow> User list \<Rightarrow> error + User list" where
  "MySQLRepo_GetAll_rows [] users = Inr users"
| "MySQLRepo_GetAll_rows (row # rows) users =
     (case row of
        Inl err \<Rightarrow> Inl (Wrapped ''failed to scan user: '' err)
      | Inr (i, n) \<Rightarrow> MySQLRepo_GetAll_rows rows (users @ [\<lparr>ID = i, Name = n\<rparr>]))"

definition MySQLRepo_GetAll :: "world \<Rightarrow> (User list \<times> error option) \<times> world" where
  "MySQLRepo_GetAll w =
     (let (r, w1) = Query ''SELECT id, name FROM users'' w
      in case r of
           Inl err \<Rightarrow> (([], Some (Wrapped ''failed to query users: '' err)), w1)
         | Inr rows \<Rightarrow>
             (case MySQLRepo_GetAll_rows (Rows_items rows) [] of
                Inl err \<Rightarrow> (([], Some err), w1)
              | Inr users \<Rightarrow>
                  (case Rows_Err rows of
                     Some err \<Rightarrow> (([], Some (Wrapped ''error iterating rows: '' err)), w1)
                   | None \<Rightarrow> ((users, None), w1))))"

section \<open>The repository contract and the service\<close>

text \<open>
  The interface \<^verbatim>\<open>UserRepository\<close>: any pair of methods over any state \<open>'s\<close> that the
  implementation acts on. The two repositories above implement it over the \<open>world\<close>.
\<close>

record 's UserRepository =
  Create :: "User \<Rightarrow> 's \<Rightarrow> error option \<times> 's"
  GetAll :: "'s \<Rightarrow> (User list \<times> error option) \<times> 's"

definition PostgresRepo_methods :: "world UserRepository" where
  "PostgresRepo_methods = \<lparr>Create = PostgresRepo_Create, GetAll = PostgresRepo_GetAll\<rparr>"

definition MySQLRepo_methods :: "world UserRepository" where
  "MySQLRepo_methods = \<lparr>Create = MySQLRepo_Create, GetAll = MySQLRepo_GetAll\<rparr>"

record 's UserService =
  repo :: "'s UserRepository"

definition NewUserService :: "'s UserRepository \<Rightarrow> 's UserService" where
  "NewUserService r = \<lparr>repo = r\<rparr>"

definition RegisterUser :: "'s UserService \<Rightarrow> string \<Rightarrow> 's \<Rightarrow> error option \<times> 's" where
  "RegisterUser s name st =
     (if name = [] then (Some (Error ''user name cannot be empty''), st)
      else
        let user = \<lparr>ID = 0, Name = name\<rparr>;
            (r, st') = Create (repo s) user st
        in case r of
             Some err \<Rightarrow> (Some (Wrapped ''failed to register user: '' err), st')
           | None \<Rightarrow> (None, st'))"

definition ListUsers :: "'s UserService \<Rightarrow> 's \<Rightarrow> (User list \<times> error option) \<times> 's" where
  "ListUsers s st =
     (let ((users, r), st') = GetAll (repo s) st
      in case r of
           Some err \<Rightarrow> (([], Some (Wrapped ''failed to list users: '' err)), st')
         | None \<Rightarrow> ((users, None), st'))"

section \<open>Sample backends, repositories and descriptors\<close>

text \<open>
  Concrete inputs on which the theorems below are instantiated: a database that accepts
  every statement and holds no rows, one that refuses every statement, one whose driver
  does not report affected rows, and one that delivers a row that does not decode.
\<close>

definition accepting_db :: world where
  "accepting_db =
     \<lparr>db_calls = [],
      db_exec = (\<lambda>calls query args. Inr (Result (Inr 1))),
      db_query = (\<lambda>calls query. Inr (Rows [] None)),
      stdout = []\<rparr>"

definition failing_db :: world where
  "failing_db =
     \<lparr>db_calls = [],
      db_exec = (\<lambda>calls query args. Inl (Error ''connection refused'')),
      db_query = (\<lambda>calls query. Inl (Error ''connection refused'')),
      stdout = []\<rparr>"


definition bad_row_db :: world where
  "bad_row_db =
     \<lparr>db_calls = [],
      db_exec = (\<lambda>calls query args. Inr (Result (Inr 1))),
      db_query = (\<lambda>calls query.
         Inr (Rows [Inr (1, ''Alice''),
                    Inl (Error ''converting NULL to string is unsupported''),
                    Inr (3, ''Carol'')] None)),
      stdout = []\<rparr>"

text \<open>
  A library for the closed instances below. They are on ASCII names and on tags without
  escapes, where \<open>Unquote\<close> and \<open>ToLower\<close> ask the library nothing; the general
  theorems hold for every library.
\<close>

definition sample_library :: Go_library where
  "sample_library = \<lparr>strconv_Unquote = (\<lambda>s. None), strings_ToLower = (\<lambda>s. s)\<rparr>"

text \<open>Two repositories that touch no database: one counts, one keeps, what it is given.\<close>

definition counting_repo :: "nat UserRepository" where
  "counting_repo =
     \<lparr>Create = (\<lambda>user n. (None, Suc n)), GetAll = (\<lambda>n. (([], None), n))\<rparr>"

definition recording_repo :: "User list UserRepository" where
  "recording_repo =
     \<lparr>Create = (\<lambda>user us. (None, us @ [user])), GetAll = (\<lambda>us. ((us, None), us))\<rparr>"

text \<open>
  Descriptors of two structs that are not in the repository:
  \<^verbatim>\<open>type Flag struct { Name string `db:"name,primary"`; On bool `db:"on"` }\<close> and
  \<^verbatim>\<open>type Account struct { ID int `db:"id,primary"`; Secret string;
  Owner string `json:"owner" db:"owner"` }\<close>.
\<close>

definition bool_type :: rtype where
  "bool_type = Type ''bool'' ''bool'' reflect_Bool []"

definition int32_type :: rtype where
  "int32_type = Type ''int32'' ''int32'' reflect_Int32 []"

definition Flag_type :: rtype where
  \<open>Flag_type =
     Type ''Flag'' ''models.Flag'' reflect_Struct
       [StructField ''Name'' string_type ''db:"name,primary"'',
        StructField ''On'' bool_type ''db:"on"'']\<close>


section \<open>Properties\<close>

subsection \<open>Where the library is asked\<close>

lemma Unquote_asks_library: "\<not> plain_quoted s \<Longrightarrow> Unquote L s = strconv_Unquote L s"
  by (simp add: Unquote_def)

lemma ToLower_asks_library:
  "\<not> list_all (\<lambda>c. (of_char c :: nat) < 128) s \<Longrightarrow> ToLower L s = strings_ToLower L s"
  by (simp add: ToLower_def)

lemma ToLower_ascii:
  "list_all (\<lambda>c. (of_char c :: nat) < 128) s \<Longrightarrow> ToLower L s = map lower_byte s"
  by (simp add: ToLower_def)

subsection \<open>Tags and columns of the descriptors\<close>

lemma Get_ID_tag: "Get L ''db:id, primary'' ''db'' = []"
  by (simp add: Get_def Lookup.simps[of L "''db:id, primary''"] key_char_def)

lemma Get_Name_tag: \<open>Get L ''db:"name"'' ''db'' = ''name''\<close>
  by (simp add: Get_def Lookup.simps[of L \<open>''db:"name"''\<close>] key_char_def Unquote_def plain_quoted_def)

lemma Get_on_tag: \<open>Get L ''db:"on"'' ''db'' = ''on''\<close>
  by (simp add: Get_def Lookup.simps[of L \<open>''db:"on"''\<close>] key_char_def Unquote_def plain_quoted_def)

lemma Get_name_primary_tag: \<open>Get L ''db:"name,primary"'' ''db'' = ''name,primary''\<close>
  by (simp add: Get_def Lookup.simps[of L \<open>''db:"name,primary"''\<close>] key_char_def Unquote_def plain_quoted_def)




lemma User_columns:
  "AutoMigrate_columns L (Type_Fields User_type) [] = Returns [''name TEXT'']"
  by (simp add: User_type_def Get_ID_tag Get_Name_tag Split_def goTypeToPostgres_def
      string_type_def)


lemma Flag_columns:
  "AutoMigrate_columns L (Type_Fields Flag_type) [] = Panics ''unsupported type: bool''"
  by (simp add: Flag_type_def Get_name_primary_tag Get_on_tag Split_def
      goTypeToPostgres_def string_type_def bool_type_def)

lemma ToLower_User: "ToLower L ''User'' = ''user''"
  by (simp add: ToLower_def lower_byte_def)


lemma AutoMigrate_User:
  "AutoMigrate L (Some User_type) w =
     (Returns (case db_exec w (db_calls w) ''CREATE TABLE IF NOT EXISTS users (name TEXT);'' []
               of Inl err \<Rightarrow> Some err | Inr res \<Rightarrow> None),
      w\<lparr>db_calls := db_calls w @
           [Exec_call ''CREATE TABLE IF NOT EXISTS users (name TEXT);'' []]\<rparr>)"
proof -
  have "Type_Kind User_type = reflect_Struct" and "Type_Name User_type = ''User''"
    by (simp_all add: User_type_def)
  then show ?thesis
    by (simp add: User_columns AutoMigrate_def TypeOf_def ToLower_User Exec_def Let_def)
qed


lemma AutoMigrate_Flag:
  "AutoMigrate L (Some Flag_type) w = (Panics ''unsupported type: bool'', w)"
proof -
  have "Type_Kind Flag_type = reflect_Struct"
    by (simp add: Flag_type_def)
  then show ?thesis
    by (simp add: Flag_columns AutoMigrate_def TypeOf_def)
qed

subsection \<open>The loops\<close>

lemma Split_from_not_empty: "Split_from s sep cur \<noteq> []"
  by (induction s arbitrary: cur) auto

lemma Split_cases:
  obtains col rest where "Split s sep = col # rest" "hd (Split s sep) = col"
  using Split_from_not_empty[of s sep "[]"]
  by (cases "Split s sep") (auto simp: Split_def)

lemma AutoMigrate_columns_panics:
  "f \<in> set fs \<Longrightarrow> Get L (Field_Tag f) ''db'' \<noteq> [] \<Longrightarrow>
   Type_Kind (Field_Type f) \<notin> {reflect_Int, reflect_Int64, reflect_String} \<Longrightarrow>
   \<exists>msg. AutoMigrate_columns L fs columns = Panics msg"
proof (induction fs arbitrary: columns)
  case Nil
  then show ?case by simp
next
  case (Cons g gs)
  show ?case
  proof (cases "Get L (Field_Tag g) ''db'' = []")
    case True
    with Cons show ?thesis by auto
  next
    case False
    obtain col rest where sp: "Split (Get L (Field_Tag g) ''db'') CHR '','' = col # rest"
      by (rule Split_cases)
    show ?thesis
    proof (cases "goTypeToPostgres (Field_Type g)")
      case (Panics msg)
      with False sp show ?thesis by simp
    next
      case (Returns ty)
      then have "f \<noteq> g"
        using Cons.prems by (auto simp: goTypeToPostgres_def split: if_splits)
      then have "f \<in> set gs"
        using Cons.prems by simp
      from Cons.IH[OF this Cons.prems(2,3)] False sp Returns show ?thesis
        by (simp add: Let_def)
    qed
  qed
qed


lemma GetAll_rows_agree: "PostgresRepo_GetAll_rows rs users = MySQLRepo_GetAll_rows rs users"
  by (induction rs arbitrary: users) (auto split: sum.splits)

lemma GetAll_rows_decode_failure:
  "\<exists>row \<in> set rs. isl row \<Longrightarrow>
   \<exists>err. PostgresRepo_GetAll_rows rs users = Inl (Wrapped ''failed to scan user: '' err)"
proof (induction rs arbitrary: users)
  case Nil
  then show ?case by simp
next
  case (Cons r rs)
  show ?case
  proof (cases r)
    case (Inl e)
    then show ?thesis by simp
  next
    case (Inr v)
    with Cons.prems have "\<exists>row \<in> set rs. isl row"
      by auto
    from Cons.IH[OF this] Inr show ?thesis
      by (cases v) simp
  qed
qed

lemma AutoMigrate_not_struct:
  "Type_Kind t \<noteq> reflect_Struct \<Longrightarrow>
   AutoMigrate L (Some t) w = (Returns (Some (Error ''model must be a struct'')), w)"
  by (simp add: AutoMigrate_def TypeOf_def)

section \<open>The claims\<close>

text \<open>
  C1. The migration of the \<^verbatim>\<open>User\<close> descriptor is claimed to derive two column
  definitions, in declaration order, the \<^verbatim>\<open>id\<close> column being the primary key of type
  \<^verbatim>\<open>BIGSERIAL\<close>. The code derives one: the tag of \<^verbatim>\<open>ID\<close>, \<^verbatim>\<open>db:id, primary\<close>, has no
  quoted value, so \<^verbatim>\<open>Tag.Get("db")\<close> is empty and the field is skipped. The theorem
  evaluates the column loop and the statement sent for \<^verbatim>\<open>models.User{}\<close>.
\<close>

theorem AutoMigrate_User_single_column:
  "AutoMigrate_columns L (Type_Fields User_type) [] = Returns [''name TEXT''] \<and>
   db_calls (snd (AutoMigrate L (Some User_type) w)) =
     db_calls w @ [Exec_call ''CREATE TABLE IF NOT EXISTS users (name TEXT);'' []]"
  by (simp add: User_columns AutoMigrate_User)

text \<open>
  C2, as the claim states it, fails: for a field of type \<^verbatim>\<open>bool\<close> the type mapping
  panics, and so does the migration of a struct with such a field.
\<close>

theorem goTypeToPostgres_bool_panics:
  "goTypeToPostgres bool_type = Panics ''unsupported type: bool'' \<and>
   AutoMigrate sample_library (Some Flag_type) accepting_db = (Panics ''unsupported type: bool'', accepting_db)"
  by (simp add: AutoMigrate_Flag goTypeToPostgres_def bool_type_def)

text \<open>
  C2, amended. For every type whose kind is none of \<^verbatim>\<open>Int\<close>, \<^verbatim>\<open>Int64\<close> and
  \<^verbatim>\<open>String\<close>, \<^verbatim>\<open>goTypeToPostgres\<close> panics with the message
  \<^verbatim>\<open>unsupported type: \<close> followed by the type; it returns no error value. The migration
  of a struct with a tagged field of such a type panics as well and sends no statement.
\<close>

theorem unsupported_type_panics:
  assumes "Type_Kind ft \<notin> {reflect_Int, reflect_Int64, reflect_String}"
  shows "goTypeToPostgres ft = Panics (''unsupported type: '' @ Type_String ft) \<and>
         (\<forall>t w. Type_Kind t = reflect_Struct \<and>
                (\<exists>f \<in> set (Type_Fields t). Field_Type f = ft \<and> Get L (Field_Tag f) ''db'' \<noteq> []) \<longrightarrow>
                (\<exists>msg. AutoMigrate L (Some t) w = (Panics msg, w)))"
proof (intro conjI allI impI)
  show "goTypeToPostgres ft = Panics (''unsupported type: '' @ Type_String ft)"
    using assms by (simp add: goTypeToPostgres_def)
next
  fix t w
  assume h: "Type_Kind t = reflect_Struct \<and>
             (\<exists>f \<in> set (Type_Fields t). Field_Type f = ft \<and> Get L (Field_Tag f) ''db'' \<noteq> [])"
  then obtain f where f: "f \<in> set (Type_Fields t)" "Field_Type f = ft"
      "Get L (Field_Tag f) ''db'' \<noteq> []"
    by blast
  from AutoMigrate_columns_panics[OF f(1) f(3), of "[]"] assms f(2)
  obtain msg where "AutoMigrate_columns L (Type_Fields t) [] = Panics msg"
    by auto
  with h show "\<exists>msg. AutoMigrate L (Some t) w = (Panics msg, w)"
    by (simp add: AutoMigrate_def TypeOf_def)
qed

theorem unsupported_type_panics_witness:
  "Type_Kind bool_type \<notin> {reflect_Int, reflect_Int64, reflect_String} \<and>
   Type_Kind Flag_type = reflect_Struct \<and>
   (\<exists>f \<in> set (Type_Fields Flag_type).
      Field_Type f = bool_type \<and> Get sample_library (Field_Tag f) ''db'' \<noteq> []) \<and>
   goTypeToPostgres bool_type = Panics (''unsupported type: '' @ Type_String bool_type) \<and>
   (\<exists>msg. AutoMigrate sample_library (Some Flag_type) accepting_db = (Panics msg, accepting_db))"
proof -
  have k: "Type_Kind bool_type \<notin> {reflect_Int, reflect_Int64, reflect_String}"
    by (simp add: bool_type_def)
  have s: "Type_Kind Flag_type = reflect_Struct"
    by (simp add: Flag_type_def)
  have f: "\<exists>f \<in> set (Type_Fields Flag_type).
             Field_Type f = bool_type \<and> Get sample_library (Field_Tag f) ''db'' \<noteq> []"
    by (simp add: Flag_type_def Get_on_tag)
  from unsupported_type_panics[OF k] k s f show ?thesis
    by blast
qed

text \<open>
  C3, as the claim states it, fails for MySQL: on a database that refuses the schema
  statement, \<^verbatim>\<open>NewMySQLRepo\<close> sends nothing and returns a handle.
\<close>

theorem NewMySQLRepo_no_migration:
  "fst (AutoMigrate sample_library (Some User_type) failing_db) = Returns (Some (Error ''connection refused'')) \<and>
   fst (NewMySQLRepo failing_db) = MySQLRepo \<and>
   db_calls (snd (NewMySQLRepo failing_db)) = []"
  by (simp add: AutoMigrate_User NewMySQLRepo_def failing_db_def)

text \<open>
  C3, amended. \<^verbatim>\<open>NewPostgresRepo\<close> runs \<^verbatim>\<open>AutoMigrate\<close> on \<^verbatim>\<open>models.User{}\<close> once
  and does nothing else to the database: it leaves the database as that one call leaves
  it, exactly one statement having been sent, before a handle exists. When the migration
  returns an error, the constructor returns that error and no handle; when it returns
  none, the constructor returns the handle. \<^verbatim>\<open>NewMySQLRepo\<close> applies no schema: it sends
  nothing and always returns a handle.
\<close>

theorem NewPostgresRepo_migrates_once:
  "snd (NewPostgresRepo L w) = snd (AutoMigrate L (Some User_type) w) \<and>
   (\<exists>query. db_calls (snd (NewPostgresRepo L w)) = db_calls w @ [Exec_call query []]) \<and>
   (\<forall>err. fst (AutoMigrate L (Some User_type) w) = Returns (Some err) \<longrightarrow>
      fst (NewPostgresRepo L w) = Returns (None, Some err)) \<and>
   (fst (AutoMigrate L (Some User_type) w) = Returns None \<longrightarrow>
      fst (NewPostgresRepo L w) = Returns (Some PostgresRepo, None)) \<and>
   NewMySQLRepo w = (MySQLRepo, w)"
  by (auto simp add: NewPostgresRepo_def NewMySQLRepo_def AutoMigrate_User split: sum.splits)

theorem NewPostgresRepo_migrates_once_witness:
  "fst (AutoMigrate sample_library (Some User_type) failing_db) = Returns (Some (Error ''connection refused'')) \<and>
   fst (NewPostgresRepo sample_library failing_db) = Returns (None, Some (Error ''connection refused'')) \<and>
   fst (AutoMigrate sample_library (Some User_type) accepting_db) = Returns None \<and>
   fst (NewPostgresRepo sample_library accepting_db) = Returns (Some PostgresRepo, None)"
proof -
  have f: "fst (AutoMigrate sample_library (Some User_type) failing_db) =
             Returns (Some (Error ''connection refused''))"
    by (simp add: AutoMigrate_User failing_db_def)
  have a: "fst (AutoMigrate sample_library (Some User_type) accepting_db) = Returns None"
    by (simp add: AutoMigrate_User accepting_db_def)
  from NewPostgresRepo_migrates_once[of sample_library failing_db] f
  have "fst (NewPostgresRepo sample_library failing_db) = Returns (None, Some (Error ''connection refused''))"
    by blast
  moreover from NewPostgresRepo_migrates_once[of sample_library accepting_db] a
  have "fst (NewPostgresRepo sample_library accepting_db) = Returns (Some PostgresRepo, None)"
    by blast
  ultimately show ?thesis
    using f a by simp
qed

text \<open>
  C4. Every input that is not a struct is claimed to be answered with a descriptive
  error. The nil interface is such an input, and on it the code panics:
  \<^verbatim>\<open>reflect.TypeOf(nil)\<close> is nil and \<^verbatim>\<open>t.Kind()\<close> dereferences it. No statement is sent.
  (On every input that has a type other than a struct the code does return the error
  \<^verbatim>\<open>model must be a struct\<close>: lemma \<open>AutoMigrate_not_struct\<close>.)
\<close>

theorem AutoMigrate_nil_panics:
  "AutoMigrate L None w =
     (Panics ''runtime error: invalid memory address or nil pointer dereference'', w)"
  by (simp add: AutoMigrate_def TypeOf_def)



text \<open>
  C6, as the claim states it, fails: a field of type \<^verbatim>\<open>int32\<close> is an integer field,
  and the type mapping gives it no token; it panics.
\<close>

theorem goTypeToPostgres_int32_panics:
  "Type_Kind int32_type = reflect_Int32 \<and>
   goTypeToPostgres int32_type = Panics ''unsupported type: int32''"
  by (simp add: goTypeToPostgres_def int32_type_def)

text \<open>
  C6, amended. The type mapping returns a token exactly on the kinds \<^verbatim>\<open>Int\<close>, \<^verbatim>\<open>Int64\<close>
  and \<^verbatim>\<open>String\<close>: the token is \<^verbatim>\<open>BIGSERIAL\<close> exactly for a field of kind \<^verbatim>\<open>Int\<close> or
  \<^verbatim>\<open>Int64\<close> and \<^verbatim>\<open>TEXT\<close> exactly for a field of kind \<^verbatim>\<open>String\<close>. On these kinds
  it is a function of the kind alone: two types of the same kind get the same token,
  whatever their names and fields, and no state is read. The integer fields of the other
  kinds (\<^verbatim>\<open>int8\<close> to \<^verbatim>\<open>int32\<close>, the unsigned ones) get no token.
\<close>

theorem goTypeToPostgres_supported:
  "(goTypeToPostgres t = Returns ''BIGSERIAL'' \<longleftrightarrow>
      Type_Kind t = reflect_Int \<or> Type_Kind t = reflect_Int64) \<and>
   (goTypeToPostgres t = Returns ''TEXT'' \<longleftrightarrow> Type_Kind t = reflect_String) \<and>
   ((\<exists>token. goTypeToPostgres t = Returns token) \<longleftrightarrow>
      Type_Kind t \<in> {reflect_Int, reflect_Int64, reflect_String}) \<and>
   (Type_Kind t \<in> {reflect_Int, reflect_Int64, reflect_String} \<and> Type_Kind t' = Type_Kind t \<longrightarrow>
      goTypeToPostgres t' = goTypeToPostgres t)"
  by (auto simp add: goTypeToPostgres_def)

theorem goTypeToPostgres_supported_witness:
  "Type_Kind int_type = reflect_Int \<and>
   goTypeToPostgres int_type = Returns ''BIGSERIAL'' \<and>
   Type_Kind string_type = reflect_String \<and>
   goTypeToPostgres string_type = Returns ''TEXT'' \<and>
   Type_Kind (Type ''UserID'' ''models.UserID'' reflect_Int []) = Type_Kind int_type \<and>
   goTypeToPostgres (Type ''UserID'' ''models.UserID'' reflect_Int []) =
     goTypeToPostgres int_type"
proof -
  have i: "Type_Kind int_type = reflect_Int"
    and s: "Type_Kind string_type = reflect_String"
    and u: "Type_Kind (Type ''UserID'' ''models.UserID'' reflect_Int []) = Type_Kind int_type"
    by (simp_all add: int_type_def string_type_def)
  from goTypeToPostgres_supported[of int_type "Type ''UserID'' ''models.UserID'' reflect_Int []"] i u
  have "goTypeToPostgres int_type = Returns ''BIGSERIAL''"
    and "goTypeToPostgres (Type ''UserID'' ''models.UserID'' reflect_Int []) =
           goTypeToPostgres int_type"
    by simp_all
  moreover from goTypeToPostgres_supported[of string_type string_type] s
  have "goTypeToPostgres string_type = Returns ''TEXT''"
    by simp
  ultimately show ?thesis
    using i s u by simp
qed

text \<open>
  C7. \<^verbatim>\<open>RegisterUser("")\<close> returns the validation error and leaves the state of the
  repository, whatever repository it is, as it was: \<^verbatim>\<open>Create\<close> is not called. For a
  non-empty name the outcome is that of \<^verbatim>\<open>Create\<close> on the user of that name, an error
  being wrapped.
\<close>

theorem RegisterUser_empty_name_no_storage:
  "RegisterUser s [] st = (Some (Error ''user name cannot be empty''), st) \<and>
   (name \<noteq> [] \<longrightarrow>
      RegisterUser s name st =
        (case Create (repo s) \<lparr>ID = 0, Name = name\<rparr> st of
           (Some err, st') \<Rightarrow> (Some (Wrapped ''failed to register user: '' err), st')
         | (None, st') \<Rightarrow> (None, st')))"
  by (simp add: RegisterUser_def split: prod.splits option.splits)

theorem RegisterUser_empty_name_no_storage_witness:
  "RegisterUser (NewUserService counting_repo) [] 0 =
     (Some (Error ''user name cannot be empty''), 0) \<and>
   ''Alice'' \<noteq> [] \<and>
   RegisterUser (NewUserService counting_repo) ''Alice'' 0 = (None, 1) \<and>
   db_calls (snd (RegisterUser (NewUserService PostgresRepo_methods) [] accepting_db)) = []"
  using RegisterUser_empty_name_no_storage[of "NewUserService counting_repo" 0 "''Alice''"]
    RegisterUser_empty_name_no_storage[of "NewUserService PostgresRepo_methods" accepting_db "[]"]
  by (simp add: NewUserService_def counting_repo_def accepting_db_def)

text \<open>
  C8. When the query succeeds and some row of the cursor does not decode, \<^verbatim>\<open>GetAll\<close> of
  either repository returns the nil slice and the scan error, wrapped; the users read
  before the failing row are dropped.
\<close>

theorem GetAll_decode_failure_no_records:
  assumes "db_query w (db_calls w) ''SELECT id, name FROM users'' = Inr rows"
    and "\<exists>row \<in> set (Rows_items rows). isl row"
  shows "\<exists>err. fst (PostgresRepo_GetAll w) = ([], Some (Wrapped ''failed to scan user: '' err)) \<and>
               fst (MySQLRepo_GetAll w) = ([], Some (Wrapped ''failed to scan user: '' err))"
proof -
  from GetAll_rows_decode_failure[OF assms(2), of "[]"] obtain err where
    pg: "PostgresRepo_GetAll_rows (Rows_items rows) [] =
           Inl (Wrapped ''failed to scan user: '' err)"
    by blast
  then have my: "MySQLRepo_GetAll_rows (Rows_items rows) [] =
                   Inl (Wrapped ''failed to scan user: '' err)"
    by (simp add: GetAll_rows_agree)
  from assms(1) pg have
    "fst (PostgresRepo_GetAll w) = ([], Some (Wrapped ''failed to scan user: '' err))"
    by (simp add: PostgresRepo_GetAll_def Query_def)
  moreover from assms(1) my have
    "fst (MySQLRepo_GetAll w) = ([], Some (Wrapped ''failed to scan user: '' err))"
    by (simp add: MySQLRepo_GetAll_def Query_def)
  ultimately show ?thesis
    by blast
qed

theorem GetAll_decode_failure_no_records_witness:
  "db_query bad_row_db (db_calls bad_row_db) ''SELECT id, name FROM users'' =
     Inr (Rows [Inr (1, ''Alice''),
                Inl (Error ''converting NULL to string is unsupported''),
                Inr (3, ''Carol'')] None) \<and>
   (\<exists>err. fst (PostgresRepo_GetAll bad_row_db) =
             ([], Some (Wrapped ''failed to scan user: '' err)) \<and>
          fst (MySQLRepo_GetAll bad_row_db) =
             ([], Some (Wrapped ''failed to scan user: '' err)))"
proof -
  have q: "db_query bad_row_db (db_calls bad_row_db) ''SELECT id, name FROM users'' =
     Inr (Rows [Inr (1, ''Alice''),
                Inl (Error ''converting NULL to string is unsupported''),
                Inr (3, ''Carol'')] None)"
    by (simp add: bad_row_db_def)
  have r: "\<exists>row \<in> set (Rows_items (Rows [Inr (1, ''Alice''),
                Inl (Error ''converting NULL to string is unsupported''),
                Inr (3, ''Carol'')] None)). isl row"
    by simp
  from GetAll_decode_failure_no_records[OF q r] q show ?thesis
    by blast
qed




text \<open>
  C10. What \<^verbatim>\<open>Create\<close> does depends on the user's name alone: two users of the same
  name lead, in either repository, to the same result and the same database, and the one
  statement sent is the insert with the name as its only argument, so the ID is not
  transmitted. \<^verbatim>\<open>RegisterUser\<close> hands the repository a user whose ID is zero, as a
  repository that keeps what it receives shows.
\<close>

theorem Create_depends_on_Name_only:
  assumes "Name u1 = Name u2"
  shows "PostgresRepo_Create u1 w = PostgresRepo_Create u2 w \<and>
         MySQLRepo_Create u1 w = MySQLRepo_Create u2 w \<and>
         db_calls (snd (PostgresRepo_Create u1 w)) =
           db_calls w @ [Exec_call ''INSERT INTO users (name) VALUES ($1)''
                           [ArgString (Name u2)]] \<and>
         db_calls (snd (MySQLRepo_Create u1 w)) =
           db_calls w @ [Exec_call ''INSERT INTO users (name) VALUES (?)''
                           [ArgString (Name u2)]] \<and>
         (name \<noteq> [] \<longrightarrow>
            snd (RegisterUser (NewUserService recording_repo) name us) =
              us @ [\<lparr>ID = 0, Name = name\<rparr>])"
proof (intro conjI impI)
  show "PostgresRepo_Create u1 w = PostgresRepo_Create u2 w"
    using assms by (simp add: PostgresRepo_Create_def)
  show "MySQLRepo_Create u1 w = MySQLRepo_Create u2 w"
    using assms by (simp add: MySQLRepo_Create_def)
  show "db_calls (snd (PostgresRepo_Create u1 w)) =
          db_calls w @ [Exec_call ''INSERT INTO users (name) VALUES ($1)''
                          [ArgString (Name u2)]]"
    using assms
    by (simp add: PostgresRepo_Create_def Exec_def Println_def split: sum.splits)
  show "db_calls (snd (MySQLRepo_Create u1 w)) =
          db_calls w @ [Exec_call ''INSERT INTO users (name) VALUES (?)''
                          [ArgString (Name u2)]]"
    using assms by (simp add: MySQLRepo_Create_def Exec_def split: sum.splits)
next
  assume "name \<noteq> []"
  then show "snd (RegisterUser (NewUserService recording_repo) name us) =
               us @ [\<lparr>ID = 0, Name = name\<rparr>]"
    by (simp add: RegisterUser_def NewUserService_def recording_repo_def)
qed

theorem Create_depends_on_Name_only_witness:
  "Name \<lparr>ID = 1, Name = ''Alice''\<rparr> = Name \<lparr>ID = 2, Name = ''Alice''\<rparr> \<and>
   PostgresRepo_Create \<lparr>ID = 1, Name = ''Alice''\<rparr> accepting_db =
     PostgresRepo_Create \<lparr>ID = 2, Name = ''Alice''\<rparr> accepting_db \<and>
   db_calls (snd (MySQLRepo_Create \<lparr>ID = 1, Name = ''Alice''\<rparr> accepting_db)) =
     [Exec_call ''INSERT INTO users (name) VALUES (?)'' [ArgString ''Alice'']] \<and>
   ''Alice'' \<noteq> [] \<and>
   snd (RegisterUser (NewUserService recording_repo) ''Alice'' []) =
     [\<lparr>ID = 0, Name = ''Alice''\<rparr>]"
proof -
  have n: "Name \<lparr>ID = 1, Name = ''Alice''\<rparr> = Name \<lparr>ID = 2, Name = ''Alice''\<rparr>"
    by simp
  have c: "db_calls accepting_db = []"
    by (simp add: accepting_db_def)
  note t = Create_depends_on_Name_only[OF n, of accepting_db "''Alice''" "[]"]
  from t have p: "PostgresRepo_Create \<lparr>ID = 1, Name = ''Alice''\<rparr> accepting_db =
                  PostgresRepo_Create \<lparr>ID = 2, Name = ''Alice''\<rparr> accepting_db"
    by (rule conjunct1)
  from t have "db_calls (snd (MySQLRepo_Create \<lparr>ID = 1, Name = ''Alice''\<rparr> accepting_db)) =
                 db_calls accepting_db @
                   [Exec_call ''INSERT INTO users (name) VALUES (?)''
                      [ArgString (Name \<lparr>ID = 2, Name = ''Alice''\<rparr>)]]"
    by blast
  then have m: "db_calls (snd (MySQLRepo_Create \<lparr>ID = 1, Name = ''Alice''\<rparr> accepting_db)) =
                  [Exec_call ''INSERT INTO users (name) VALUES (?)'' [ArgString ''Alice'']]"
    unfolding c by simp
  from t have "''Alice'' \<noteq> [] \<longrightarrow>
                 snd (RegisterUser (NewUserService recording_repo) ''Alice'' []) =
                   [] @ [\<lparr>ID = 0, Name = ''Alice''\<rparr>]"
    by blast
  then have r: "snd (RegisterUser (NewUserService recording_repo) ''Alice'' []) =
                  [\<lparr>ID = 0, Name = ''Alice''\<rparr>]"
    by simp
  show ?thesis
    by (intro conjI) (rule n, rule p, rule m, simp, rule r)
qed

end
